theory Spec2Isabelle
  imports Complex_Main "HOL-Library.AList"
begin

section \<open>Data model of \<open>crypto_monitor.py\<close>\<close>

text \<open>
  The agent keeps everything in Python dictionaries. A dictionary is modelled as an
  association list: the order of the pairs is the insertion order that Python's \<open>dict\<close>
  iterates in, lookup is \<^const>\<open>map_of\<close>, and \<open>d[k] = v\<close> is \<^const>\<open>AList.update\<close>
  (an existing key keeps its position, a new key goes to the end). A Python dictionary
  never holds a key twice; where a property depends on that, it is stated as
  \<open>distinct (map fst d)\<close>.

  Prices, percentage changes and volatilities are Python floats (or integers, as the
  JSON decoder delivers them). In the state and in the signal logic they are modelled as
  exact real numbers, without the rounding of IEEE-754 arithmetic; the thresholds are
  compared with whatever change and volatility have been computed, so the rounding does
  not enter there. The value that \<open>calculate_volatility\<close> computes does depend on the
  rounding, and the section on binary64 arithmetic models that method a second time,
  with every operation rounded as the machine rounds it. Instants returned by
  \<open>datetime.now().isoformat()\<close> are strings handed in from outside.
\<close>

type_synonym ticker = string
type_synonym timestamp = string
type_synonym ('k, 'v) dict = "('k \<times> 'v) list"

record price_entry =
  price :: real
  timestamp :: timestamp

datatype signal_type = SELL_SIGNAL | BUY_SIGNAL | VOLATILITY_ALERT

datatype strength_tag = STRONG | MODERATE | WARNING

text \<open>
  The \<open>reason\<close> of a signal is an f-string around a number printed with two decimals.
  The model keeps the sentence and the number, not the printed digits.
\<close>

datatype reason_text = Price_dropped real | Price_surged real | High_volatility_detected real

record signal =
  signal_type :: signal_type
  coin :: ticker
  reason :: reason_text
  old_price :: real
  new_price :: real
  change :: real
  volatility :: real
  signal_timestamp :: timestamp
  strength :: strength_tag

record agent_state =
  previous_prices :: "(ticker, real) dict"
  price_history :: "(ticker, price_entry list) dict"
  signals_generated :: "signal list"
  last_check :: "timestamp option"
  total_alerts :: int
  agent_start_time :: timestamp

text \<open>
  The values the methods read from \<open>self.config\<close>: \<open>config['coins']\<close>,
  \<open>config['thresholds']['drop_alert']\<close>, \<open>config['thresholds']['surge_alert']\<close>,
  \<open>config['enable_surge_alerts']\<close>, \<open>config['enable_volatility_tracking']\<close> and
  \<open>config['max_history_length']\<close>, the last one a Python integer.
\<close>

record config =
  coins :: "(string, ticker) dict"
  drop_alert :: real
  surge_alert :: real
  enable_surge_alerts :: bool
  enable_volatility_tracking :: bool
  max_history_length :: int

section \<open>Configuration loading\<close>

datatype json =
  JNull | JBool bool | JNum real | JStr string | JArr "json list" | JObj "(string \<times> json) list"

definition default_config :: "(string, json) dict" where
  "default_config =
     [(''coins'', JObj [(''bitcoin'', JStr ''BTC''), (''ethereum'', JStr ''ETH''),
                        (''solana'', JStr ''SOL''), (''cardano'', JStr ''ADA''),
                        (''polkadot'', JStr ''DOT'')]),
      (''thresholds'', JObj [(''drop_alert'', JNum (- 5)), (''surge_alert'', JNum 10),
                             (''volatility_window'', JNum 24)]),
      (''check_interval'', JNum 300),
      (''enable_surge_alerts'', JBool True),
      (''enable_volatility_tracking'', JBool True),
      (''max_history_length'', JNum 288)]"

text \<open>\<open>d.update(other)\<close> for a dictionary \<open>other\<close>: every pair of \<open>other\<close> is assigned in turn.\<close>

fun dict_update :: "('k, 'v) dict \<Rightarrow> ('k, 'v) dict \<Rightarrow> ('k, 'v) dict" where
  "dict_update d [] = d"
| "dict_update d ((k, v) # rest) = dict_update (AList.update k v d) rest"

text \<open>
  What \<open>load_config\<close> finds at \<open>self.config_file\<close>: no file, a file whose reading or
  decoding raises, or a file that decodes to a JSON object. (A file holding another JSON
  value, such as a bare number, is outside this model.)
\<close>

datatype config_file = No_file | Load_raises | Loaded "(string, json) dict"

fun load_config :: "config_file \<Rightarrow> (string, json) dict" where
  "load_config No_file = default_config"
| "load_config Load_raises = default_config"
| "load_config (Loaded loaded_config) = dict_update default_config loaded_config"

text \<open>\<open>config[k1][k2]\<close>, with \<open>None\<close> where Python raises \<open>KeyError\<close> or \<open>TypeError\<close>.\<close>

definition config_lookup2 :: "(string, json) dict \<Rightarrow> string \<Rightarrow> string \<Rightarrow> json option" where
  "config_lookup2 c k1 k2 =
     (case map_of c k1 of
        Some (JObj inner) \<Rightarrow> map_of inner k2
      | _ \<Rightarrow> None)"

section \<open>Fetching prices\<close>

text \<open>
  The decoded response maps a coin id to an object such as \<open>{"usd": 67000.0}\<close>.
  \<open>None\<close> stands for every exception inside \<open>get_current_prices\<close> (transport error,
  HTTP error status, undecodable body), all of which the method catches and turns into
  the return value \<open>None\<close>; so is a missing \<open>'usd'\<close> key. The quotes are numbers, as
  the feed delivers them; a quote that holds another JSON value is outside this model.
\<close>

type_synonym response = "(string, (string, real) dict) dict"

fun collect_prices ::
  "(string \<times> ticker) list \<Rightarrow> response \<Rightarrow> (ticker, real) dict \<Rightarrow> (ticker, real) dict option" where
  "collect_prices [] data current_prices = Some current_prices"
| "collect_prices ((coin_id, ticker) # rest) data current_prices =
     (case map_of data coin_id of
        None \<Rightarrow> collect_prices rest data current_prices
      | Some quote \<Rightarrow>
          (case map_of quote ''usd'' of
             None \<Rightarrow> None
           | Some usd \<Rightarrow> collect_prices rest data (AList.update ticker usd current_prices)))"

definition get_current_prices :: "config \<Rightarrow> response option \<Rightarrow> (ticker, real) dict option" where
  "get_current_prices cfg resp =
     (case resp of
        None \<Rightarrow> None
      | Some data \<Rightarrow> collect_prices (coins cfg) data [])"

section \<open>Statistics\<close>

definition calculate_percentage_change :: "real \<Rightarrow> real \<Rightarrow> real" where
  "calculate_percentage_change old new =
     (if old = 0 then 0
      else ((new - old) / old) * 100)"

text \<open>
  The Python slice \<open>xs[i:]\<close>: a negative \<open>i\<close> counts from the end, and an index beyond
  either end is clamped. In particular \<open>xs[-0:]\<close> is \<open>xs[0:]\<close>, the whole list.
\<close>

definition py_slice_from :: "int \<Rightarrow> 'a list \<Rightarrow> 'a list" where
  "py_slice_from i xs =
     (if i < 0 then drop (nat (int (length xs) + i)) xs else drop (nat i) xs)"

text \<open>One pass of the loop body of \<open>update_price_history\<close>, for one ticker.\<close>

definition record_price ::
  "int \<Rightarrow> timestamp \<Rightarrow> (ticker, price_entry list) dict \<Rightarrow> ticker \<Rightarrow> real
     \<Rightarrow> (ticker, price_entry list) dict" where
  "record_price max_len ts ph ticker p =
     (let ph1 = (if map_of ph ticker = None then AList.update ticker [] ph else ph);
          h = (case map_of ph1 ticker of None \<Rightarrow> [] | Some es \<Rightarrow> es)
                @ [\<lparr>price = p, timestamp = ts\<rparr>];
          ph2 = AList.update ticker h ph1
      in if int (length h) > max_len
         then AList.update ticker (py_slice_from (- max_len) h) ph2
         else ph2)"

fun update_price_history_loop ::
  "config \<Rightarrow> timestamp \<Rightarrow> (ticker \<times> real) list \<Rightarrow> agent_state \<Rightarrow> agent_state" where
  "update_price_history_loop cfg ts [] st = st"
| "update_price_history_loop cfg ts ((ticker, p) # rest) st =
     update_price_history_loop cfg ts rest
       (st\<lparr>price_history :=
            record_price (max_history_length cfg) ts (price_history st) ticker p\<rparr>)"

definition update_price_history ::
  "config \<Rightarrow> timestamp \<Rightarrow> agent_state \<Rightarrow> (ticker, real) dict \<Rightarrow> agent_state" where
  "update_price_history cfg ts st current_prices =
     update_price_history_loop cfg ts current_prices st"

definition calculate_volatility :: "agent_state \<Rightarrow> ticker \<Rightarrow> real" where
  "calculate_volatility st ticker =
     (case map_of (price_history st) ticker of
        None \<Rightarrow> 0
      | Some es \<Rightarrow>
          if length es < 2 then 0
          else
            let prices = map price es;
                avg_price = sum_list prices / real (length prices)
            in if avg_price = 0 then 0
               else
                 let variance = sum_list (map (\<lambda>p. (p - avg_price) ^ 2) prices)
                                  / real (length prices);
                     std_dev = sqrt variance
                 in (std_dev / avg_price) * 100)"

section \<open>Signal generation\<close>

text \<open>
  The \<open>if\<close>/\<open>elif\<close>/\<open>elif\<close> chain in the loop body of \<open>generate_trading_signals\<close>,
  which leaves \<open>signal\<close> at \<open>None\<close> or sets it to one dictionary. \<open>ts\<close> is the instant
  read while the dictionary is built.
\<close>

definition signal_for ::
  "config \<Rightarrow> timestamp \<Rightarrow> ticker \<Rightarrow> real \<Rightarrow> real \<Rightarrow> real \<Rightarrow> real \<Rightarrow> signal option" where
  "signal_for cfg ts ticker old new chg vol =
     (if chg \<le> drop_alert cfg then
        Some \<lparr>signal_type = SELL_SIGNAL, coin = ticker, reason = Price_dropped chg,
              old_price = old, new_price = new, change = chg, volatility = vol,
              signal_timestamp = ts,
              strength = (if chg \<le> - 10 then STRONG else MODERATE)\<rparr>
      else if enable_surge_alerts cfg \<and> chg \<ge> surge_alert cfg then
        Some \<lparr>signal_type = BUY_SIGNAL, coin = ticker, reason = Price_surged chg,
              old_price = old, new_price = new, change = chg, volatility = vol,
              signal_timestamp = ts,
              strength = (if chg \<ge> 20 then STRONG else MODERATE)\<rparr>
      else if enable_volatility_tracking cfg \<and> vol > 15 then
        Some \<lparr>signal_type = VOLATILITY_ALERT, coin = ticker,
              reason = High_volatility_detected vol,
              old_price = old, new_price = new, change = chg, volatility = vol,
              signal_timestamp = ts, strength = WARNING\<rparr>
      else None)"

text \<open>
  The \<open>for ticker in current_prices\<close> loop. It runs over the pairs of the dictionary, so
  that \<open>current_prices[ticker]\<close> is the second component. \<open>signals\<close> is the local list,
  the state carries \<open>signals_generated\<close> and \<open>total_alerts\<close>; \<open>now ticker\<close> is the instant
  read when the signal of that ticker is built.
\<close>

fun generate_trading_signals_loop ::
  "config \<Rightarrow> (ticker \<Rightarrow> timestamp) \<Rightarrow> (ticker \<times> real) list \<Rightarrow> signal list \<Rightarrow> agent_state
     \<Rightarrow> signal list \<times> agent_state" where
  "generate_trading_signals_loop cfg now [] signals st = (signals, st)"
| "generate_trading_signals_loop cfg now ((ticker, new) # rest) signals st =
     (case map_of (previous_prices st) ticker of
        None \<Rightarrow> generate_trading_signals_loop cfg now rest signals st
      | Some old \<Rightarrow>
          (case signal_for cfg (now ticker) ticker old new
                  (calculate_percentage_change old new) (calculate_volatility st ticker) of
             None \<Rightarrow> generate_trading_signals_loop cfg now rest signals st
           | Some s \<Rightarrow>
               generate_trading_signals_loop cfg now rest (signals @ [s])
                 (st\<lparr>signals_generated := signals_generated st @ [s],
                     total_alerts := total_alerts st + 1\<rparr>)))"

definition generate_trading_signals ::
  "config \<Rightarrow> (ticker \<Rightarrow> timestamp) \<Rightarrow> agent_state \<Rightarrow> (ticker, real) dict
     \<Rightarrow> signal list \<times> agent_state" where
  "generate_trading_signals cfg now st current_prices =
     (if previous_prices st = [] then ([], st)
      else generate_trading_signals_loop cfg now current_prices [] st)"

section \<open>The agent loop\<close>

text \<open>
  What one pass of the \<open>while True\<close> loop of \<open>run_agent\<close> receives from outside: the
  decoded response of the price feed (or its failure) and the instants read during the
  pass. Printing and \<open>save_state\<close> (which catches its own exceptions) do not change the
  state in memory and are left out.
\<close>

record tick =
  http_response :: "response option"
  now_history :: timestamp
  now_signal :: "ticker \<Rightarrow> timestamp"
  now_check :: timestamp

definition run_cycle :: "config \<Rightarrow> tick \<Rightarrow> agent_state \<Rightarrow> agent_state" where
  "run_cycle cfg tk st =
     (case get_current_prices cfg (http_response tk) of
        None \<Rightarrow> st
      | Some current_prices \<Rightarrow>
          if current_prices = [] then st
          else
            let st1 = update_price_history cfg (now_history tk) st current_prices;
                st2 = snd (generate_trading_signals cfg (now_signal tk) st1 current_prices)
            in st2\<lparr>previous_prices := current_prices, last_check := Some (now_check tk)\<rparr>)"

text \<open>
  The loop runs until the user interrupts it; the passes it makes before that are the
  list of ticks, and the result is the state that the final \<open>save_state\<close> writes.
\<close>

fun run_agent :: "config \<Rightarrow> tick list \<Rightarrow> agent_state \<Rightarrow> agent_state" where
  "run_agent cfg [] st = st"
| "run_agent cfg (tk # rest) st = run_agent cfg rest (run_cycle cfg tk st)"

section \<open>The priority chain as the specification words it\<close>

text \<open>
  Follows the specification, not the code: Sell when \<open>change_pct \<le> drop_alert\<close> (Strong
  iff \<open>change_pct \<le> -10\<close>), else Buy when surge alerts are enabled and
  \<open>change_pct \<ge> surge_alert\<close> (Strong iff \<open>change_pct \<ge> 20\<close>), else a volatility warning
  when tracking is enabled and \<open>volatility_pct > 15\<close>, else nothing.
\<close>

definition spec_priority_chain ::
  "config \<Rightarrow> real \<Rightarrow> real \<Rightarrow> (signal_type \<times> strength_tag) list" where
  "spec_priority_chain cfg change_pct volatility_pct =
     (if change_pct \<le> drop_alert cfg
        then [(SELL_SIGNAL, if change_pct \<le> - 10 then STRONG else MODERATE)]
      else if enable_surge_alerts cfg \<and> change_pct \<ge> surge_alert cfg
        then [(BUY_SIGNAL, if change_pct \<ge> 20 then STRONG else MODERATE)]
      else if enable_volatility_tracking cfg \<and> volatility_pct > 15
        then [(VOLATILITY_ALERT, WARNING)]
      else [])"

section \<open>Binary64 arithmetic and the volatility as the machine computes it\<close>

text \<open>
  A Python float is an IEEE-754 binary64 number. \<open>F64 m e\<close> stands for \<open>m * 2 ^ e\<close>; zero
  is \<open>F64 0 0\<close>, and every other number has a mantissa of exactly 53 bits
  (\<open>2 ^ 52 \<le> \<bar>m\<bar> < 2 ^ 53\<close>), so that equal numbers are equal terms. The mantissa and
  exponent of a Python float \<open>x\<close> can be read off \<open>x.hex()\<close>. Infinities, NaN, subnormal
  numbers and the sign of zero are not modelled; the stored prices are floats.

  \<open>round_to_f64 m e\<close> is the binary64 number nearest to \<open>m * 2 ^ e\<close>, ties going to the
  even mantissa, as the hardware rounds the result of \<open>+\<close>, \<open>-\<close>, \<open>*\<close> and \<open>/\<close>.
\<close>

datatype f64 = F64 int int

definition f64_zero :: f64 where "f64_zero = F64 0 0"
definition f64_two :: f64 where "f64_two = F64 4503599627370496 (- 51)"
definition f64_half :: f64 where "f64_half = F64 4503599627370496 (- 53)"
definition f64_hundred :: f64 where "f64_hundred = F64 7036874417766400 (- 46)"

text \<open>Python's \<open>int.bit_length\<close>, for a nonnegative integer.\<close>

fun bit_length :: "int \<Rightarrow> nat" where
  "bit_length m = (if m \<le> 0 then 0 else Suc (bit_length (m div 2)))"

declare bit_length.simps [simp del]

definition round_to_f64 :: "int \<Rightarrow> int \<Rightarrow> f64" where
  "round_to_f64 m e =
     (if m = 0 then F64 0 0
      else
        let n = bit_length \<bar>m\<bar> in
        if n \<le> 53 then F64 (m * 2 ^ (53 - n)) (e - int (53 - n))
        else
          let s = n - 53;
              q = \<bar>m\<bar> div 2 ^ s;
              r = \<bar>m\<bar> mod 2 ^ s;
              h = 2 ^ (s - 1);
              q' = (if r > h \<or> (r = h \<and> odd q) then q + 1 else q)
          in if q' = 2 ^ 53 then F64 (sgn m * 2 ^ 52) (e + int s + 1)
             else F64 (sgn m * q') (e + int s))"

text \<open>
  The four operations: the exact result, rounded. Every division in
  \<open>calculate_volatility\<close> has a nonzero divisor (a length of at least 2, or the mean
  after the test for 0); \<open>f64_div\<close> gives zero on a zero divisor. The quotient is taken
  to at least 56 bits and a sticky bit, which fixes its rounding.
\<close>

fun f64_add :: "f64 \<Rightarrow> f64 \<Rightarrow> f64" where
  "f64_add (F64 m1 e1) (F64 m2 e2) =
     (let e = min e1 e2
      in round_to_f64 (m1 * 2 ^ nat (e1 - e) + m2 * 2 ^ nat (e2 - e)) e)"

fun f64_sub :: "f64 \<Rightarrow> f64 \<Rightarrow> f64" where
  "f64_sub (F64 m1 e1) (F64 m2 e2) =
     (let e = min e1 e2
      in round_to_f64 (m1 * 2 ^ nat (e1 - e) - m2 * 2 ^ nat (e2 - e)) e)"

fun f64_mul :: "f64 \<Rightarrow> f64 \<Rightarrow> f64" where
  "f64_mul (F64 m1 e1) (F64 m2 e2) = round_to_f64 (m1 * m2) (e1 + e2)"

fun f64_div :: "f64 \<Rightarrow> f64 \<Rightarrow> f64" where
  "f64_div (F64 m1 e1) (F64 m2 e2) =
     (if m1 = 0 \<or> m2 = 0 then F64 0 0
      else
        let n = \<bar>m1\<bar> * 2 ^ 56;
            q = n div \<bar>m2\<bar>;
            sticky = (if n mod \<bar>m2\<bar> = 0 then 0 else 1)
        in round_to_f64 (sgn m1 * sgn m2 * (2 * q + sticky)) (e1 - e2 - 57))"

text \<open>
  The correctly rounded square root: the integer square root of the mantissa, scaled to
  at least 56 bits, and a sticky bit.
\<close>

primrec isqrt_bits :: "nat \<Rightarrow> int \<Rightarrow> int \<Rightarrow> int" where
  "isqrt_bits 0 m r = r"
| "isqrt_bits (Suc i) m r =
     (let c = r + 2 ^ i in isqrt_bits i m (if c * c \<le> m then c else r))"

fun f64_sqrt :: "f64 \<Rightarrow> f64" where
  "f64_sqrt (F64 m e) =
     (if m \<le> 0 then F64 0 0
      else
        let k = (if even e then 58 else 59);
            n = m * 2 ^ k;
            s = isqrt_bits (bit_length n) n 0;
            sticky = (if s * s = n then 0 else 1)
        in round_to_f64 (2 * s + sticky) ((e - int k) div 2 - 1))"

text \<open>\<open>len(prices)\<close> as a float, which the division converts it to.\<close>

definition f64_of_nat :: "nat \<Rightarrow> f64" where
  "f64_of_nat n = round_to_f64 (int n) 0"

text \<open>
  The builtin \<open>sum\<close> on floats: it starts from 0 and adds from left to right. (CPython
  from release 3.12 on also carries a compensation for the rounding errors of the
  additions; this is the plain summation of the earlier releases.)
\<close>

definition py_sum :: "f64 list \<Rightarrow> f64" where
  "py_sum xs = foldl f64_add f64_zero xs"

text \<open>
  \<open>x ** 2\<close> and \<open>x ** 0.5\<close> call the C library's \<open>pow\<close>, whose result may differ from
  the correctly rounded one in the last place. The model of \<open>calculate_volatility\<close>
  therefore takes \<open>pow\<close> as a parameter. \<open>pow_rounded\<close> is the correctly rounded power at
  the two exponents that the method uses; the C library agrees with it wherever the
  result is exact.
\<close>

definition pow_rounded :: "f64 \<Rightarrow> f64 \<Rightarrow> f64" where
  "pow_rounded x y =
     (if y = f64_two then f64_mul x x
      else if y = f64_half then f64_sqrt x
      else f64_zero)"

text \<open>
  \<open>calculate_volatility\<close> once more, on the price history with the prices as binary64
  numbers, every operation rounded. The \<open>0\<close> that the method returns early is the float
  zero.
\<close>

record observation64 =
  price64 :: f64
  timestamp64 :: timestamp

definition calculate_volatility_f64 ::
  "(f64 \<Rightarrow> f64 \<Rightarrow> f64) \<Rightarrow> (ticker, observation64 list) dict \<Rightarrow> ticker \<Rightarrow> f64" where
  "calculate_volatility_f64 pow ph ticker =
     (case map_of ph ticker of
        None \<Rightarrow> f64_zero
      | Some es \<Rightarrow>
          if length es < 2 then f64_zero
          else
            let prices = map price64 es;
                avg_price = f64_div (py_sum prices) (f64_of_nat (length prices))
            in if avg_price = f64_zero then f64_zero
               else
                 let variance =
                       f64_div (py_sum (map (\<lambda>p. pow (f64_sub p avg_price) f64_two) prices))
                         (f64_of_nat (length prices));
                     std_dev = pow variance f64_half
                 in f64_mul (f64_div std_dev avg_price) f64_hundred)"


section \<open>Auxiliary notions for the proofs\<close>

text \<open>The signals that one pair of \<open>current_prices\<close> contributes, as a list of length 0 or 1.\<close>

definition emitted_for ::
  "config \<Rightarrow> (ticker \<Rightarrow> timestamp) \<Rightarrow> agent_state \<Rightarrow> ticker \<times> real \<Rightarrow> signal list" where
  "emitted_for cfg now st tp =
     (case map_of (previous_prices st) (fst tp) of
        None \<Rightarrow> []
      | Some old \<Rightarrow>
          (case signal_for cfg (now (fst tp)) (fst tp) old (snd tp)
                  (calculate_percentage_change old (snd tp)) (calculate_volatility st (fst tp)) of
             None \<Rightarrow> []
           | Some s \<Rightarrow> [s]))"

definition emitted :: 
  "config \<Rightarrow> (ticker \<Rightarrow> timestamp) \<Rightarrow> agent_state \<Rightarrow> (ticker \<times> real) list \<Rightarrow> signal list" where
  "emitted cfg now st cp = concat (map (emitted_for cfg now st) cp)"

text \<open>The history of a ticker as a list of entries, empty for an unseen ticker.\<close>

definition observations :: "agent_state \<Rightarrow> ticker \<Rightarrow> price_entry list" where
  "observations st ticker = (case map_of (price_history st) ticker of None \<Rightarrow> [] | Some es \<Rightarrow> es)"

text \<open>
  The trimming step of \<open>update_price_history\<close> on one history, the last \<open>k\<close> elements of
  a list, a run of updates, and the entries that a run of updates records for a ticker.
\<close>

definition trim :: "int \<Rightarrow> 'a list \<Rightarrow> 'a list" where
  "trim max_len h = (if int (length h) > max_len then py_slice_from (- max_len) h else h)"

definition last_n :: "nat \<Rightarrow> 'a list \<Rightarrow> 'a list" where
  "last_n k xs = drop (length xs - k) xs"

fun record_all ::
  "config \<Rightarrow> agent_state \<Rightarrow> (timestamp \<times> (ticker, real) dict) list \<Rightarrow> agent_state" where
  "record_all cfg st [] = st"
| "record_all cfg st ((ts, cp) # rest) = record_all cfg (update_price_history cfg ts st cp) rest"

definition entries_for ::
  "ticker \<Rightarrow> (timestamp \<times> (ticker, real) dict) list \<Rightarrow> price_entry list" where
  "entries_for t ups =
     concat (map (\<lambda>(ts, cp). case map_of cp t of None \<Rightarrow> []
                               | Some p \<Rightarrow> [\<lparr>price = p, timestamp = ts\<rparr>]) ups)"

section \<open>Concrete inputs\<close>

text \<open>
  A state with two tickers: a varying history for BTC and a constant one for ETH.
\<close>

definition st_two_histories :: agent_state where
  "st_two_histories =
     \<lparr>previous_prices = [],
      price_history =
        [(''BTC'', [\<lparr>price = 1, timestamp = ''t0''\<rparr>, \<lparr>price = 3, timestamp = ''t1''\<rparr>]),
         (''ETH'', [\<lparr>price = 2, timestamp = ''t0''\<rparr>, \<lparr>price = 2, timestamp = ''t1''\<rparr>])],
      signals_generated = [], last_check = None, total_alerts = 0,
      agent_start_time = ''t0''\<rparr>"

text \<open>A configuration file that overrides one of the three thresholds only.\<close>

definition partial_thresholds_file :: config_file where
  "partial_thresholds_file = Loaded [(''thresholds'', JObj [(''drop_alert'', JNum (- 3))])]"

text \<open>
  Two monitored coins, both with a previous price, and a feed response that quotes only
  one of them; and a tick on which the feed fails.
\<close>

definition cfg_two_coins :: config where
  "cfg_two_coins =
     \<lparr>coins = [(''bitcoin'', ''BTC''), (''ethereum'', ''ETH'')],
      drop_alert = - 5, surge_alert = 10, enable_surge_alerts = True,
      enable_volatility_tracking = True, max_history_length = 288\<rparr>"

definition st_two_prices :: agent_state where
  "st_two_prices =
     \<lparr>previous_prices = [(''BTC'', 100), (''ETH'', 50)],
      price_history = [(''BTC'', [\<lparr>price = 100, timestamp = ''t0''\<rparr>]),
                       (''ETH'', [\<lparr>price = 50, timestamp = ''t0''\<rparr>])],
      signals_generated = [], last_check = Some ''t0'', total_alerts = 0,
      agent_start_time = ''t0''\<rparr>"

definition tick_btc_only :: tick where
  "tick_btc_only =
     \<lparr>http_response = Some [(''bitcoin'', [(''usd'', 101)])],
      now_history = ''t1'', now_signal = (\<lambda>t. ''t1''), now_check = ''t1''\<rparr>"

definition tick_failed :: tick where
  "tick_failed =
     \<lparr>http_response = None,
      now_history = ''t1'', now_signal = (\<lambda>t. ''t1''), now_check = ''t1''\<rparr>"

text \<open>A configuration with \<open>max_history_length\<close> 0, and the state of a first run.\<close>

definition cfg_zero_cap :: config where
  "cfg_zero_cap =
     \<lparr>coins = [(''bitcoin'', ''BTC'')],
      drop_alert = - 5, surge_alert = 10, enable_surge_alerts = True,
      enable_volatility_tracking = True, max_history_length = 0\<rparr>"

definition st_fresh :: agent_state where
  "st_fresh =
     \<lparr>previous_prices = [], price_history = [], signals_generated = [],
      last_check = None, total_alerts = 0, agent_start_time = ''t0''\<rparr>"

text \<open>
  A classification input: BTC fell from 4 to 3 (a change of -25 percent) over a history
  of volatility 50 percent, and SOL is seen for the first time.
\<close>

definition cfg_defaults :: config where
  "cfg_defaults =
     \<lparr>coins = [(''bitcoin'', ''BTC''), (''solana'', ''SOL'')],
      drop_alert = - 5, surge_alert = 10, enable_surge_alerts = True,
      enable_volatility_tracking = True, max_history_length = 288\<rparr>"

definition st_volatile :: agent_state where
  "st_volatile =
     \<lparr>previous_prices = [(''BTC'', 4)],
      price_history =
        [(''BTC'', [\<lparr>price = 1, timestamp = ''t0''\<rparr>, \<lparr>price = 3, timestamp = ''t1''\<rparr>]),
         (''SOL'', [\<lparr>price = 20, timestamp = ''t1''\<rparr>])],
      signals_generated = [], last_check = Some ''t0'', total_alerts = 0,
      agent_start_time = ''t0''\<rparr>"

definition prices_btc_sol :: "(ticker, real) dict" where
  "prices_btc_sol = [(''BTC'', 3), (''SOL'', 20)]"

definition now_t1 :: "ticker \<Rightarrow> timestamp" where
  "now_t1 t = ''t1''"

text \<open>
  A feed response without any of the monitored coins: the fetch returns an empty
  dictionary.
\<close>

definition tick_no_quotes :: tick where
  "tick_no_quotes =
     \<lparr>http_response = Some [],
      now_history = ''t1'', now_signal = (\<lambda>t. ''t1''), now_check = ''t1''\<rparr>"


definition constant_history :: "ticker \<Rightarrow> f64 \<Rightarrow> nat \<Rightarrow> (ticker, observation64 list) dict" where
  "constant_history ticker c n = [(ticker, replicate n \<lparr>price64 = c, timestamp64 = ''t0''\<rparr>)]"

section \<open>Lemmas on sums\<close>

lemma sum_list_nonneg_real: "(\<forall>x \<in> set xs. 0 \<le> x) \<Longrightarrow> 0 \<le> sum_list (xs::real list)"
  by (induction xs) auto

lemma sum_sq_nonneg: "0 \<le> sum_list (map (\<lambda>p. (p - m) ^ 2) (xs::real list))"
  by (induction xs) auto

section \<open>Percentage change\<close>

text \<open>
  C7. \<open>calculate_percentage_change old new\<close> is 0 when \<open>old\<close> is 0, and
  \<open>((new - old) / old) * 100\<close> otherwise; for every positive \<open>old\<close> the change from \<open>old\<close>
  to \<open>old\<close> is 0.
\<close>

theorem percentage_change_guarded:
  "calculate_percentage_change 0 new = 0
   \<and> (old \<noteq> 0 \<longrightarrow> calculate_percentage_change old new = ((new - old) / old) * 100)
   \<and> (old > 0 \<longrightarrow> calculate_percentage_change old old = 0)"
  by (simp add: calculate_percentage_change_def)

theorem percentage_change_guarded_witness:
  "calculate_percentage_change 0 7 = 0
   \<and> (100::real) \<noteq> 0 \<and> calculate_percentage_change 100 94 = - 6
   \<and> (50::real) > 0 \<and> calculate_percentage_change 50 50 = 0"
  using percentage_change_guarded [of 7 100] percentage_change_guarded [of 94 100]
    percentage_change_guarded [of 50 50]
  by simp

section \<open>Volatility\<close>

lemma calculate_volatility_unfold:
  "calculate_volatility st t =
     (let ps = map price (observations st t);
          n = real (length ps);
          mean = sum_list ps / n
      in if length ps < 2 \<or> mean = 0 then 0
         else sqrt (sum_list (map (\<lambda>p. (p - mean) ^ 2) ps) / n) / mean * 100)"
  by (simp add: calculate_volatility_def observations_def Let_def split: option.split)

text \<open>
  C10. When every stored price of the ticker is nonnegative, \<open>calculate_volatility\<close>
  returns a nonnegative value.
\<close>

theorem calculate_volatility_nonneg:
  "\<forall>e \<in> set (observations st t). 0 \<le> price e \<Longrightarrow> 0 \<le> calculate_volatility st t"
proof -
  assume h: "\<forall>e \<in> set (observations st t). 0 \<le> price e"
  let ?ps = "map price (observations st t)"
  let ?n = "real (length ?ps)"
  let ?mean = "sum_list ?ps / ?n"
  let ?var = "sum_list (map (\<lambda>p. (p - ?mean) ^ 2) ?ps) / ?n"
  have "0 \<le> sum_list ?ps" using h by (intro sum_list_nonneg_real) auto
  then have a: "0 \<le> ?mean" by simp
  have v: "0 \<le> ?var" using sum_sq_nonneg [of ?mean ?ps] by simp
  then have s: "0 \<le> sqrt ?var" by simp
  have q: "0 \<le> sqrt ?var / ?mean" using s a by (rule divide_nonneg_nonneg)
  have r: "0 \<le> sqrt ?var / ?mean * 100" using q by (rule mult_nonneg_nonneg) simp
  have eq: "calculate_volatility st t =
              (if length ?ps < 2 \<or> ?mean = 0 then 0 else sqrt ?var / ?mean * 100)"
    using calculate_volatility_unfold [of st t] unfolding Let_def .
  show ?thesis
  proof (cases "length ?ps < 2 \<or> ?mean = 0")
    case True
    then show ?thesis by (simp only: eq if_True order_refl)
  next
    case False
    then show ?thesis using r by (simp only: eq if_False)
  qed
qed

theorem calculate_volatility_nonneg_witness:
  "map price (observations st_two_histories ''BTC'') = [1, 3]
   \<and> 0 \<le> calculate_volatility st_two_histories ''BTC''"
proof -
  have h: "\<forall>e \<in> set (observations st_two_histories ''BTC''). 0 \<le> price e"
    by (simp add: st_two_histories_def observations_def)
  show ?thesis using calculate_volatility_nonneg [OF h]
    by (simp add: st_two_histories_def observations_def)
qed

section \<open>Volatility in binary64 arithmetic\<close>










text \<open>
  The model against the interpreter: on constant histories of 0.45 (seven times), 0.7
  (three times) and 67000.1 (six times) it gives \<open>0x1.bc71c71c71c71p-47\<close>,
  \<open>0x1.1db6db6db6db8p-46\<close> and \<open>0x1.87425586aa227p-46\<close>, the floats that CPython prints as
  1.233581138472396e-14, 1.5860328923216526e-14 and 2.171924404346688e-14.
\<close>

lemma constant_history_residues:
  "calculate_volatility_f64 pow_rounded
     (constant_history ''ADA'' (F64 8106479329266893 (- 54)) 7) ''ADA''
     = F64 7818749353073777 (- 99)"
  "calculate_volatility_f64 pow_rounded
     (constant_history ''ADA'' (F64 6305039478318694 (- 53)) 3) ''ADA''
     = F64 5026338869833144 (- 98)"
  "calculate_volatility_f64 pow_rounded
     (constant_history ''BTC'' (F64 4604211813259674 (- 36)) 6) ''BTC''
     = F64 6883103187051047 (- 98)"
  by code_simp+




section \<open>The signal loop\<close>

text \<open>
  The loop only appends to \<open>signals\<close>, \<open>signals_generated\<close> and \<open>total_alerts\<close>; what it
  reads (\<open>previous_prices\<close>, \<open>price_history\<close>) it does not change. So its result is the
  concatenation of what each pair contributes on the state the loop started from.
\<close>

lemma calculate_volatility_cong:
  "price_history st' = price_history st \<Longrightarrow> calculate_volatility st' t = calculate_volatility st t"
  by (simp add: calculate_volatility_def)

lemma emitted_for_cong:
  "previous_prices st' = previous_prices st \<Longrightarrow> price_history st' = price_history st
   \<Longrightarrow> emitted_for cfg now st' tp = emitted_for cfg now st tp"
  by (simp add: emitted_for_def calculate_volatility_def split: option.split)

lemma emitted_cong:
  "previous_prices st' = previous_prices st \<Longrightarrow> price_history st' = price_history st
   \<Longrightarrow> emitted cfg now st' cp = emitted cfg now st cp"
proof -
  assume "previous_prices st' = previous_prices st" and "price_history st' = price_history st"
  then have "emitted_for cfg now st' = emitted_for cfg now st"
    by (intro ext emitted_for_cong)
  then show ?thesis by (simp add: emitted_def)
qed

lemma loop_char:
  "generate_trading_signals_loop cfg now cp sigs st =
     (sigs @ emitted cfg now st cp,
      st\<lparr>signals_generated := signals_generated st @ emitted cfg now st cp,
         total_alerts := total_alerts st + int (length (emitted cfg now st cp))\<rparr>)"
proof (induction cp arbitrary: sigs st)
  case Nil
  show ?case by (simp add: emitted_def)
next
  case (Cons tp cp)
  obtain t new where tp: "tp = (t, new)" by (cases tp)
  show ?case
  proof (cases "map_of (previous_prices st) t")
    case None
    then show ?thesis by (simp add: tp Cons.IH emitted_def emitted_for_def)
  next
    case (Some old)
    show ?thesis
    proof (cases "signal_for cfg (now t) t old new
                  (calculate_percentage_change old new) (calculate_volatility st t)")
      case None
      with Some show ?thesis by (simp add: tp Cons.IH emitted_def emitted_for_def)
    next
      case (Some s)
      let ?st' = "st\<lparr>signals_generated := signals_generated st @ [s],
                     total_alerts := total_alerts st + 1\<rparr>"
      have c: "emitted cfg now ?st' cp = emitted cfg now st cp"
        by (rule emitted_cong) simp_all
      have e: "emitted cfg now st (tp # cp) = s # emitted cfg now st cp"
        using Some \<open>map_of (previous_prices st) t = Some old\<close>
        by (simp add: tp emitted_def emitted_for_def)
      have step: "generate_trading_signals_loop cfg now (tp # cp) sigs st =
                  generate_trading_signals_loop cfg now cp (sigs @ [s]) ?st'"
        using Some \<open>map_of (previous_prices st) t = Some old\<close> by (simp add: tp)
      show ?thesis
        unfolding step Cons.IH c e by simp
    qed
  qed
qed

lemma gts_char:
  "generate_trading_signals cfg now st cp =
     (if previous_prices st = [] then ([], st)
      else (emitted cfg now st cp,
            st\<lparr>signals_generated := signals_generated st @ emitted cfg now st cp,
               total_alerts := total_alerts st + int (length (emitted cfg now st cp))\<rparr>))"
  by (simp add: generate_trading_signals_def loop_char)

lemma signal_for_coin:
  "signal_for cfg ts t old new chg vol = Some s \<Longrightarrow> coin s = t"
  by (auto simp: signal_for_def split: if_splits)

lemma signal_for_kind:
  "map (\<lambda>s. (signal_type s, strength s))
     (case signal_for cfg ts t old new chg vol of None \<Rightarrow> [] | Some s \<Rightarrow> [s])
   = spec_priority_chain cfg chg vol"
  by (simp add: signal_for_def spec_priority_chain_def)

lemma emitted_for_coin:
  assumes "s \<in> set (emitted_for cfg now st tp)"
  shows "coin s = fst tp \<and> map_of (previous_prices st) (fst tp) \<noteq> None"
proof (cases "map_of (previous_prices st) (fst tp)")
  case None
  with assms show ?thesis by (simp add: emitted_for_def)
next
  case (Some old)
  note prev = this
  show ?thesis
  proof (cases "signal_for cfg (now (fst tp)) (fst tp) old (snd tp)
                  (calculate_percentage_change old (snd tp)) (calculate_volatility st (fst tp))")
    case None
    with prev assms show ?thesis by (simp add: emitted_for_def)
  next
    case (Some s')
    with prev assms have "s = s'" by (simp add: emitted_for_def)
    with Some have "coin s = fst tp" by (simp add: signal_for_coin)
    with prev show ?thesis by simp
  qed
qed

lemma emitted_for_unknown:
  "map_of (previous_prices st) (fst tp) = None \<Longrightarrow> emitted_for cfg now st tp = []"
  by (simp add: emitted_for_def)

lemma emitted_filter_unknown:
  "map_of (previous_prices st) t = None \<Longrightarrow>
   emitted cfg now st (filter (\<lambda>tp. fst tp \<noteq> t) cp) = emitted cfg now st cp"
  by (induction cp) (auto simp: emitted_def emitted_for_unknown)

lemma emitted_coin_known:
  "s \<in> set (emitted cfg now st cp) \<Longrightarrow> map_of (previous_prices st) (coin s) \<noteq> None"
proof -
  assume "s \<in> set (emitted cfg now st cp)"
  then obtain tp where "s \<in> set (emitted_for cfg now st tp)"
    by (auto simp: emitted_def)
  then show ?thesis
    using emitted_for_coin [of s cfg now st tp] by simp
qed

lemma filter_emitted_for_other:
  "fst tp \<noteq> t \<Longrightarrow> filter (\<lambda>s. coin s = t) (emitted_for cfg now st tp) = []"
  using emitted_for_coin [of _ cfg now st tp] by (auto simp: filter_empty_conv)

lemma filter_emitted_for_same:
  "fst tp = t \<Longrightarrow> filter (\<lambda>s. coin s = t) (emitted_for cfg now st tp) = emitted_for cfg now st tp"
  using emitted_for_coin [of _ cfg now st tp] by (auto simp: filter_id_conv)

lemma filter_emitted_absent:
  "t \<notin> fst ` set cp \<Longrightarrow> filter (\<lambda>s. coin s = t) (emitted cfg now st cp) = []"
proof (induction cp)
  case Nil
  show ?case by (simp add: emitted_def)
next
  case (Cons tp cp)
  then have "fst tp \<noteq> t" and "t \<notin> fst ` set cp" by auto
  then show ?case
    using Cons.IH filter_emitted_for_other [of tp t cfg now st]
    by (simp add: emitted_def)
qed

lemma filter_emitted_distinct:
  "distinct (map fst cp) \<Longrightarrow> (t, new) \<in> set cp \<Longrightarrow>
   filter (\<lambda>s. coin s = t) (emitted cfg now st cp) = emitted_for cfg now st (t, new)"
proof (induction cp)
  case Nil
  then show ?case by simp
next
  case (Cons tp cp)
  show ?case
  proof (cases "tp = (t, new)")
    case True
    with Cons.prems have "t \<notin> fst ` set cp" by auto
    then have "filter (\<lambda>s. coin s = t) (emitted cfg now st cp) = []"
      by (rule filter_emitted_absent)
    then show ?thesis
      using True filter_emitted_for_same [of "(t, new)" t cfg now st]
      by (simp add: emitted_def)
  next
    case False
    with Cons.prems have mem: "(t, new) \<in> set cp" and d: "distinct (map fst cp)" by auto
    from mem Cons.prems have "fst tp \<noteq> t" by (auto simp: image_iff)
    then show ?thesis
      using Cons.IH [OF d mem] filter_emitted_for_other [of tp t cfg now st]
      by (simp add: emitted_def)
  qed
qed

lemma emitted_for_chain:
  "map_of (previous_prices st) t = Some old \<Longrightarrow>
   map (\<lambda>s. (signal_type s, strength s)) (emitted_for cfg now st (t, new))
     = spec_priority_chain cfg (calculate_percentage_change old new) (calculate_volatility st t)"
  by (simp add: emitted_for_def signal_for_kind)

lemma gts_volatile:
  "generate_trading_signals cfg_defaults now_t1 st_volatile prices_btc_sol =
    ([\<lparr>signal_type = SELL_SIGNAL, coin = ''BTC'', reason = Price_dropped (- 25),
        old_price = 4, new_price = 3, change = - 25, volatility = 50,
        signal_timestamp = ''t1'', strength = STRONG\<rparr>],
     st_volatile\<lparr>signals_generated :=
        [\<lparr>signal_type = SELL_SIGNAL, coin = ''BTC'', reason = Price_dropped (- 25),
        old_price = 4, new_price = 3, change = - 25, volatility = 50,
        signal_timestamp = ''t1'', strength = STRONG\<rparr>], total_alerts := 1\<rparr>)"
  by (simp add: generate_trading_signals_def st_volatile_def prices_btc_sol_def cfg_defaults_def
       now_t1_def signal_for_def calculate_percentage_change_def calculate_volatility_def)

text \<open>
  C1. Let the ticker \<open>t\<close> be in \<open>current_prices\<close> with price \<open>new\<close> and have the previous
  price \<open>old\<close>. Then the signals that one call of \<open>generate_trading_signals\<close> returns for
  \<open>t\<close> are, by type and strength, exactly what the priority chain of the specification
  yields for the percentage change from \<open>old\<close> to \<open>new\<close> and the volatility of \<open>t\<close>: Sell
  (Strong iff the change is at most -10) when the change is at most \<open>drop_alert\<close>, else
  Buy (Strong iff the change is at least 20) when surge alerts are on and the change is
  at least \<open>surge_alert\<close>, else a volatility alert of strength Warning when tracking is on
  and the volatility exceeds 15, else nothing. There is at most one signal for \<open>t\<close>, and
  when the change is at most \<open>drop_alert\<close> it is the Sell signal alone, whatever the
  volatility.
\<close>

theorem signal_priority_chain:
  assumes "distinct (map fst cp)" and "(t, new) \<in> set cp"
    and "map_of (previous_prices st) t = Some old"
  shows "map (\<lambda>s. (signal_type s, strength s))
           (filter (\<lambda>s. coin s = t) (fst (generate_trading_signals cfg now st cp)))
         = spec_priority_chain cfg (calculate_percentage_change old new)
             (calculate_volatility st t)
       \<and> length (filter (\<lambda>s. coin s = t) (fst (generate_trading_signals cfg now st cp))) \<le> 1
       \<and> (calculate_percentage_change old new \<le> drop_alert cfg \<longrightarrow>
            map signal_type
              (filter (\<lambda>s. coin s = t) (fst (generate_trading_signals cfg now st cp)))
            = [SELL_SIGNAL])"
proof -
  let ?out = "filter (\<lambda>s. coin s = t) (fst (generate_trading_signals cfg now st cp))"
  let ?chain = "spec_priority_chain cfg (calculate_percentage_change old new)
                  (calculate_volatility st t)"
  from assms(3) have ne: "previous_prices st \<noteq> []" by auto
  have "?out = emitted_for cfg now st (t, new)"
    using ne filter_emitted_distinct [OF assms(1) assms(2)] by (simp add: gts_char)
  then have eq: "map (\<lambda>s. (signal_type s, strength s)) ?out = ?chain"
    by (simp add: emitted_for_chain [OF assms(3)])
  have "length ?out = length ?chain"
    using arg_cong [OF eq, of length] by simp
  then have len: "length ?out \<le> 1" by (simp add: spec_priority_chain_def)
  have "map fst (map (\<lambda>s. (signal_type s, strength s)) ?out) = map fst ?chain"
    by (simp only: eq)
  then have kinds: "map signal_type ?out = map fst ?chain" by (simp add: comp_def)
  have sell: "calculate_percentage_change old new \<le> drop_alert cfg \<longrightarrow>
                map signal_type ?out = [SELL_SIGNAL]"
    unfolding kinds by (simp add: spec_priority_chain_def)
  from eq len sell show ?thesis by blast
qed

theorem signal_priority_chain_witness:
  "distinct (map fst prices_btc_sol)
   \<and> map_of (previous_prices st_volatile) ''BTC'' = Some 4
   \<and> calculate_percentage_change 4 3 = - 25
   \<and> calculate_volatility st_volatile ''BTC'' = 50
   \<and> map (\<lambda>s. (signal_type s, strength s))
        (filter (\<lambda>s. coin s = ''BTC'')
           (fst (generate_trading_signals cfg_defaults now_t1 st_volatile prices_btc_sol)))
      = [(SELL_SIGNAL, STRONG)]"
proof -
  have d: "distinct (map fst prices_btc_sol)" by (simp add: prices_btc_sol_def)
  have m: "(''BTC'', 3) \<in> set prices_btc_sol" by (simp add: prices_btc_sol_def)
  have p: "map_of (previous_prices st_volatile) ''BTC'' = Some 4" by (simp add: st_volatile_def)
  have c: "calculate_percentage_change 4 3 = - 25" by (simp add: calculate_percentage_change_def)
  have v: "calculate_volatility st_volatile ''BTC'' = 50"
    by (simp add: calculate_volatility_def st_volatile_def)
  show ?thesis
    using signal_priority_chain [OF d m p, of cfg_defaults now_t1] d p c v
    by (simp add: spec_priority_chain_def cfg_defaults_def)
qed

text \<open>
  C8. A ticker without an entry in \<open>previous_prices\<close> gets no signal from
  \<open>generate_trading_signals\<close>, and the call returns the same signals and the same state
  (so the same \<open>signals_generated\<close> and \<open>total_alerts\<close>) as it does on the fetched prices
  without that ticker, whatever its price.
\<close>

theorem no_signal_without_previous_price:
  assumes "map_of (previous_prices st) t = None"
  shows "filter (\<lambda>s. coin s = t) (fst (generate_trading_signals cfg now st cp)) = []
       \<and> generate_trading_signals cfg now st cp
           = generate_trading_signals cfg now st (filter (\<lambda>tp. fst tp \<noteq> t) cp)"
proof
  have "\<forall>s \<in> set (emitted cfg now st cp). coin s \<noteq> t"
  proof
    fix s assume "s \<in> set (emitted cfg now st cp)"
    then have "map_of (previous_prices st) (coin s) \<noteq> None" by (rule emitted_coin_known)
    with assms show "coin s \<noteq> t" by auto
  qed
  then have "filter (\<lambda>s. coin s = t) (emitted cfg now st cp) = []"
    by (simp add: filter_empty_conv)
  then show "filter (\<lambda>s. coin s = t) (fst (generate_trading_signals cfg now st cp)) = []"
    by (simp add: gts_char)
  show "generate_trading_signals cfg now st cp
           = generate_trading_signals cfg now st (filter (\<lambda>tp. fst tp \<noteq> t) cp)"
    by (simp add: gts_char emitted_filter_unknown [OF assms])
qed

theorem no_signal_without_previous_price_witness:
  "map_of (previous_prices st_volatile) ''SOL'' = None
   \<and> filter (\<lambda>s. coin s = ''SOL'')
        (fst (generate_trading_signals cfg_defaults now_t1 st_volatile prices_btc_sol)) = []
   \<and> generate_trading_signals cfg_defaults now_t1 st_volatile prices_btc_sol
      = generate_trading_signals cfg_defaults now_t1 st_volatile [(''BTC'', 3)]"
proof -
  have p: "map_of (previous_prices st_volatile) ''SOL'' = None" by (simp add: st_volatile_def)
  have f: "filter (\<lambda>tp. fst tp \<noteq> ''SOL'') prices_btc_sol = [(''BTC'', 3)]"
    by (simp add: prices_btc_sol_def)
  show ?thesis
    using no_signal_without_previous_price [OF p, of cfg_defaults now_t1 prices_btc_sol] p
    unfolding f by fast
qed

text \<open>
  C9. After a call of \<open>generate_trading_signals\<close>, \<open>signals_generated\<close> is its old value
  followed by the returned signals in their order, and \<open>total_alerts\<close> has grown by the
  number of returned signals.
\<close>

theorem signals_log_append_only:
  "signals_generated (snd (generate_trading_signals cfg now st cp))
     = signals_generated st @ fst (generate_trading_signals cfg now st cp)
   \<and> total_alerts (snd (generate_trading_signals cfg now st cp))
     = total_alerts st + int (length (fst (generate_trading_signals cfg now st cp)))"
  by (simp add: gts_char)

theorem signals_log_append_only_witness:
  "length (fst (generate_trading_signals cfg_defaults now_t1 st_volatile prices_btc_sol)) = 1
   \<and> signals_generated
        (snd (generate_trading_signals cfg_defaults now_t1 st_volatile prices_btc_sol))
      = signals_generated st_volatile
          @ fst (generate_trading_signals cfg_defaults now_t1 st_volatile prices_btc_sol)
   \<and> total_alerts (snd (generate_trading_signals cfg_defaults now_t1 st_volatile prices_btc_sol))
      = total_alerts st_volatile + 1"
  using signals_log_append_only [of cfg_defaults now_t1 st_volatile prices_btc_sol]
  by (simp add: gts_volatile)

section \<open>Configuration merge\<close>

text \<open>
  \<open>default_config.update(loaded_config)\<close> works key by key at the top level: a key that
  the file does not have keeps its default, a key that the file has takes the file's
  value whole.
\<close>

lemma dict_update_absent:
  "k \<notin> fst ` set other \<Longrightarrow> map_of (dict_update d other) k = map_of d k"
  by (induction d other rule: dict_update.induct) (auto simp: update_conv')

lemma dict_update_present:
  "distinct (map fst other) \<Longrightarrow> map_of other k = Some v
   \<Longrightarrow> map_of (dict_update d other) k = Some v"
proof (induction d other rule: dict_update.induct)
  case (1 d)
  then show ?case by simp
next
  case (2 d k' v' rest)
  show ?case
  proof (cases "k' = k")
    case True
    with 2 have "v' = v" and "k \<notin> fst ` set rest" by auto
    then show ?thesis using True by (simp add: dict_update_absent update_conv')
  next
    case False
    with 2 show ?thesis by simp
  qed
qed

lemma load_config_top_level_default:
  "k \<notin> fst ` set loaded_config
   \<Longrightarrow> map_of (load_config (Loaded loaded_config)) k = map_of default_config k"
  by (simp add: dict_update_absent)

text \<open>
  C2. The claim is that a file which supplies only some of the nested threshold fields
  keeps the defaults of the others. On the file \<open>{"thresholds": {"drop_alert": -3}}\<close>
  the loaded configuration has the file's \<open>drop_alert\<close>, but no \<open>surge_alert\<close> under
  \<open>thresholds\<close>, although the default configuration has one (10): the whole default
  \<open>thresholds\<close> object is replaced by the file's.
\<close>

theorem load_config_shallow_merge_drops_nested_defaults:
  "config_lookup2 default_config ''thresholds'' ''surge_alert'' = Some (JNum 10)
   \<and> config_lookup2 (load_config partial_thresholds_file) ''thresholds'' ''drop_alert''
       = Some (JNum (- 3))
   \<and> config_lookup2 (load_config partial_thresholds_file) ''thresholds'' ''surge_alert''
       = None"
  by (simp add: partial_thresholds_file_def default_config_def config_lookup2_def)

section \<open>One pass of the agent loop\<close>

text \<open>The dictionary that \<open>get_current_prices\<close> builds has every ticker once.\<close>

lemma collect_prices_distinct:
  "distinct (map fst acc) \<Longrightarrow> collect_prices cs data acc = Some cp \<Longrightarrow> distinct (map fst cp)"
proof (induction cs data acc rule: collect_prices.induct)
  case (1 data current_prices)
  then show ?case by simp
next
  case (2 coin_id ticker rest data current_prices)
  show ?case
  proof (cases "map_of data coin_id")
    case None
    with 2 show ?thesis by simp
  next
    case (Some quote)
    note q = this
    show ?thesis
    proof (cases "map_of quote ''usd''")
      case None
      with q 2 show ?thesis by simp
    next
      case (Some usd)
      have "distinct (map fst (AList.update ticker usd current_prices))"
        using "2.prems"(1) by (rule distinct_update)
      with q Some 2 show ?thesis by simp
    qed
  qed
qed

lemma get_current_prices_distinct:
  "get_current_prices cfg resp = Some cp \<Longrightarrow> distinct (map fst cp)"
  by (cases resp) (auto simp: get_current_prices_def dest: collect_prices_distinct [rotated])

lemma fetch_btc_only:
  "get_current_prices cfg_two_coins (http_response tick_btc_only) = Some [(''BTC'', 101)]"
  by (simp add: get_current_prices_def cfg_two_coins_def tick_btc_only_def)

lemma run_cycle_success:
  "get_current_prices cfg (http_response tk) = Some cp \<Longrightarrow> cp \<noteq> [] \<Longrightarrow>
   run_cycle cfg tk st =
     (snd (generate_trading_signals cfg (now_signal tk)
             (update_price_history cfg (now_history tk) st cp) cp))
       \<lparr>previous_prices := cp, last_check := Some (now_check tk)\<rparr>"
  by (simp add: run_cycle_def Let_def)

text \<open>
  C3, as stated, fails: with previous prices for BTC and ETH and a fetch that returns
  BTC only, ETH has no previous price after the pass.
\<close>

theorem previous_prices_absent_ticker_dropped:
  "map_of (previous_prices st_two_prices) ''ETH'' = Some 50
   \<and> get_current_prices cfg_two_coins (http_response tick_btc_only) = Some [(''BTC'', 101)]
   \<and> map_of (previous_prices (run_cycle cfg_two_coins tick_btc_only st_two_prices)) ''ETH''
       = None"
proof -
  have "previous_prices (run_cycle cfg_two_coins tick_btc_only st_two_prices) = [(''BTC'', 101)]"
    by (simp add: run_cycle_success [OF fetch_btc_only])
  then show ?thesis by (simp add: fetch_btc_only) (simp add: st_two_prices_def)
qed

text \<open>
  C3, amended. After a pass whose fetch returned a nonempty price dictionary,
  \<open>previous_prices\<close> is that dictionary; a ticker that is not in it has no previous price
  afterwards.
\<close>

theorem previous_prices_replaced_wholesale:
  assumes "get_current_prices cfg (http_response tk) = Some cp" and "cp \<noteq> []"
  shows "previous_prices (run_cycle cfg tk st) = cp
       \<and> (map_of cp t = None \<longrightarrow> map_of (previous_prices (run_cycle cfg tk st)) t = None)"
  by (simp add: run_cycle_success [OF assms])

theorem previous_prices_replaced_wholesale_witness:
  "get_current_prices cfg_two_coins (http_response tick_btc_only) = Some [(''BTC'', 101)]
   \<and> previous_prices (run_cycle cfg_two_coins tick_btc_only st_two_prices) = [(''BTC'', 101)]
   \<and> map_of (previous_prices (run_cycle cfg_two_coins tick_btc_only st_two_prices)) ''ETH''
       = None"
proof -
  have ne: "[(''BTC'', 101::real)] \<noteq> []" by simp
  show ?thesis
    using previous_prices_replaced_wholesale [OF fetch_btc_only ne, of st_two_prices "''ETH''"]
      fetch_btc_only
    by simp
qed

text \<open>
  C6. When the fetch fails, that is, when \<open>get_current_prices\<close> returns \<open>None\<close> or an
  empty dictionary (the two results on which the loop prints its warning), the pass
  leaves the state as it was (\<open>previous_prices\<close>, \<open>price_history\<close>, \<open>signals_generated\<close>,
  \<open>total_alerts\<close> and \<open>last_check\<close> included), and the loop goes on: the next pass runs,
  from the unchanged state, and the loop continues after it.
\<close>

theorem failed_fetch_skips_cycle:
  assumes "get_current_prices cfg (http_response tk) = None
           \<or> get_current_prices cfg (http_response tk) = Some []"
  shows "run_cycle cfg tk st = st
       \<and> previous_prices (run_cycle cfg tk st) = previous_prices st
       \<and> price_history (run_cycle cfg tk st) = price_history st
       \<and> signals_generated (run_cycle cfg tk st) = signals_generated st
       \<and> total_alerts (run_cycle cfg tk st) = total_alerts st
       \<and> last_check (run_cycle cfg tk st) = last_check st
       \<and> run_agent cfg (tk # rest) st = run_agent cfg rest st
       \<and> run_agent cfg [tk, tk2] st = run_cycle cfg tk2 st
       \<and> run_agent cfg (tk # tk2 # rest) st = run_agent cfg rest (run_cycle cfg tk2 st)"
proof -
  from assms have skip: "run_cycle cfg tk st = st"
    by (auto simp: run_cycle_def)
  then show ?thesis by simp
qed

theorem failed_fetch_skips_cycle_witness:
  "get_current_prices cfg_two_coins (http_response tick_failed) = None
   \<and> get_current_prices cfg_two_coins (http_response tick_no_quotes) = Some []
   \<and> run_cycle cfg_two_coins tick_failed st_two_prices = st_two_prices
   \<and> run_cycle cfg_two_coins tick_no_quotes st_two_prices = st_two_prices
   \<and> last_check (run_cycle cfg_two_coins tick_failed st_two_prices) = Some ''t0''
   \<and> run_agent cfg_two_coins [tick_failed, tick_btc_only] st_two_prices
       = run_cycle cfg_two_coins tick_btc_only st_two_prices
   \<and> previous_prices (run_agent cfg_two_coins [tick_failed, tick_btc_only] st_two_prices)
       = [(''BTC'', 101)]
   \<and> last_check (run_agent cfg_two_coins [tick_failed, tick_btc_only] st_two_prices)
       = Some ''t1''"
proof -
  have f: "get_current_prices cfg_two_coins (http_response tick_failed) = None"
    by (simp add: get_current_prices_def tick_failed_def)
  have e: "get_current_prices cfg_two_coins (http_response tick_no_quotes) = Some []"
    by (simp add: get_current_prices_def tick_no_quotes_def cfg_two_coins_def)
  have l: "last_check st_two_prices = Some ''t0''" by (simp add: st_two_prices_def)
  have n: "previous_prices (run_cycle cfg_two_coins tick_btc_only st_two_prices)
             = [(''BTC'', 101)]"
    by (simp add: run_cycle_success [OF fetch_btc_only])
  have "last_check (run_cycle cfg_two_coins tick_btc_only st_two_prices)
          = Some (now_check tick_btc_only)"
    by (simp add: run_cycle_success [OF fetch_btc_only])
  then have c: "last_check (run_cycle cfg_two_coins tick_btc_only st_two_prices) = Some ''t1''"
    by (simp add: tick_btc_only_def)
  show ?thesis
    using failed_fetch_skips_cycle [OF disjI1 [OF f], of st_two_prices "[]" tick_btc_only]
      failed_fetch_skips_cycle [OF disjI2 [OF e], of st_two_prices "[]" tick_btc_only]
      f e l n c
    by simp
qed

section \<open>The bounded history\<close>

text \<open>
  For a cap of at least 1 the trim keeps the last \<open>max_history_length\<close> entries: the
  history stays within the cap, and after a run of updates it holds the most recent
  recorded entries in the order of their insertion.
\<close>

lemma trim_positive: "1 \<le> m \<Longrightarrow> trim m h = last_n (nat m) h"
  by (auto simp: trim_def last_n_def py_slice_from_def nat_diff_distrib')

lemma length_last_n: "length (last_n k xs) \<le> k"
  by (simp add: last_n_def)

lemma last_n_append_last_n: "last_n k (last_n k xs @ ys) = last_n k (xs @ ys)"
  by (cases "length xs \<le> k") (auto simp: last_n_def add.commute)

lemma last_n_all: "length xs \<le> k \<Longrightarrow> last_n k xs = xs"
  by (simp add: last_n_def)

lemma map_of_record_price:
  "map_of (record_price m ts ph t p) t' =
     (if t' = t
      then Some (trim m ((case map_of ph t of None \<Rightarrow> [] | Some es \<Rightarrow> es)
                           @ [\<lparr>price = p, timestamp = ts\<rparr>]))
      else map_of ph t')"
  by (simp add: record_price_def trim_def Let_def update_conv' split: option.split)

lemma observations_record_price:
  "observations (st\<lparr>price_history := record_price m ts (price_history st) t p\<rparr>) t' =
     (if t' = t then trim m (observations st t @ [\<lparr>price = p, timestamp = ts\<rparr>])
      else observations st t')"
  by (simp add: observations_def map_of_record_price)

lemma observations_loop_absent:
  "t \<notin> fst ` set cp \<Longrightarrow>
   observations (update_price_history_loop cfg ts cp st) t = observations st t"
proof (induction cp arbitrary: st)
  case Nil
  show ?case by simp
next
  case (Cons tp cp)
  obtain t' p where tp: "tp = (t', p)" by (cases tp)
  with Cons.prems have "t \<noteq> t'" and "t \<notin> fst ` set cp" by auto
  then show ?case by (simp add: tp Cons.IH observations_record_price)
qed

lemma observations_update_price_history:
  assumes "distinct (map fst cp)"
  shows "observations (update_price_history cfg ts st cp) t =
     (case map_of cp t of
        None \<Rightarrow> observations st t
      | Some p \<Rightarrow> trim (max_history_length cfg)
                    (observations st t @ [\<lparr>price = p, timestamp = ts\<rparr>]))"
  using assms unfolding update_price_history_def
proof (induction cp arbitrary: st)
  case Nil
  show ?case by simp
next
  case (Cons tp cp)
  obtain t' p where tp: "tp = (t', p)" by (cases tp)
  from Cons.prems tp have d: "distinct (map fst cp)" and n: "t' \<notin> fst ` set cp" by auto
  show ?case
  proof (cases "t = t'")
    case True
    with n have "map_of cp t = None" by (simp add: map_of_eq_None_iff)
    then show ?thesis
      using True n by (simp add: tp observations_loop_absent observations_record_price)
  next
    case False
    then show ?thesis
      by (simp add: tp Cons.IH [OF d] observations_record_price split: option.split)
  qed
qed

lemma history_bounded:
  assumes "distinct (map fst cp)" and "1 \<le> max_history_length cfg" and "map_of cp t = Some p"
  shows "int (length (observations (update_price_history cfg ts st cp) t)) \<le> max_history_length cfg"
proof -
  have "length (observations (update_price_history cfg ts st cp) t) \<le> nat (max_history_length cfg)"
    by (simp add: observations_update_price_history [OF assms(1)] assms(3)
          trim_positive [OF assms(2)] length_last_n)
  with assms(2) show ?thesis by linarith
qed

lemma history_fifo:
  assumes "1 \<le> max_history_length cfg"
    and "\<forall>u \<in> set ups. distinct (map fst (snd u))"
    and "int (length (observations st t)) \<le> max_history_length cfg"
  shows "observations (record_all cfg st ups) t =
           last_n (nat (max_history_length cfg)) (observations st t @ entries_for t ups)"
  using assms(2,3)
proof (induction ups arbitrary: st)
  case Nil
  then have "length (observations st t) \<le> nat (max_history_length cfg)" by linarith
  then show ?case by (simp add: entries_for_def last_n_all)
next
  case (Cons u ups)
  obtain ts cp where u: "u = (ts, cp)" by (cases u)
  let ?m = "nat (max_history_length cfg)"
  let ?st' = "update_price_history cfg ts st cp"
  let ?e = "case map_of cp t of None \<Rightarrow> [] | Some p \<Rightarrow> [\<lparr>price = p, timestamp = ts\<rparr>]"
  from Cons.prems u have d: "distinct (map fst cp)" by auto
  from Cons.prems have old: "length (observations st t) \<le> ?m" by linarith
  have step: "observations ?st' t = last_n ?m (observations st t @ ?e)"
    using old
    by (simp add: observations_update_price_history [OF d] trim_positive [OF assms(1)]
          last_n_all split: option.split)
  have "length (observations ?st' t) \<le> ?m" unfolding step by (rule length_last_n)
  then have b: "int (length (observations ?st' t)) \<le> max_history_length cfg"
    using assms(1) by linarith
  from Cons.prems have r: "\<forall>u \<in> set ups. distinct (map fst (snd u))" by simp
  have "observations (record_all cfg ?st' ups) t =
          last_n ?m (observations ?st' t @ entries_for t ups)"
    using Cons.IH [OF r b] .
  also have "\<dots> = last_n ?m ((observations st t @ ?e) @ entries_for t ups)"
    unfolding step by (rule last_n_append_last_n)
  also have "\<dots> = last_n ?m (observations st t @ entries_for t (u # ups))"
    by (simp add: entries_for_def u)
  finally show ?case by (simp add: u)
qed

lemma history_fifo_fresh:
  assumes "1 \<le> max_history_length cfg"
    and "\<forall>u \<in> set ups. distinct (map fst (snd u))"
    and "observations st t = []"
    and "int (length (entries_for t ups)) > max_history_length cfg"
  shows "observations (record_all cfg st ups) t
           = drop (length (entries_for t ups) - nat (max_history_length cfg)) (entries_for t ups)"
    and "length (observations (record_all cfg st ups) t) = nat (max_history_length cfg)"
    and "hd (observations (record_all cfg st ups) t)
           = entries_for t ups ! (length (entries_for t ups) - nat (max_history_length cfg))"
proof -
  have b: "int (length (observations st t)) \<le> max_history_length cfg"
    using assms(1,3) by simp
  show eq: "observations (record_all cfg st ups) t
           = drop (length (entries_for t ups) - nat (max_history_length cfg)) (entries_for t ups)"
    using history_fifo [OF assms(1) assms(2) b] assms(3) by (simp add: last_n_def)
  from assms(1,4) have lt: "nat (max_history_length cfg) < length (entries_for t ups)"
    and pos: "0 < nat (max_history_length cfg)" by linarith+
  from eq lt show "length (observations (record_all cfg st ups) t) = nat (max_history_length cfg)"
    by simp
  from lt pos have "length (entries_for t ups) - nat (max_history_length cfg)
                      < length (entries_for t ups)" by linarith
  then show "hd (observations (record_all cfg st ups) t)
           = entries_for t ups ! (length (entries_for t ups) - nat (max_history_length cfg))"
    unfolding eq by (rule hd_drop_conv_nth)
qed

text \<open>
  C5. The claim is that a stored history never has more than \<open>max_history_length\<close>
  entries after an update. With \<open>max_history_length\<close> 0 the trim is
  \<open>history[-0:]\<close>, which is the whole list: after one update the history of BTC has one
  entry, after two updates two.
\<close>

theorem zero_cap_history_not_trimmed:
  "max_history_length cfg_zero_cap = 0
   \<and> map price
        (observations (update_price_history cfg_zero_cap ''t1'' st_fresh [(''BTC'', 100)])
           ''BTC'')
      = [100]
   \<and> map price
        (observations
           (update_price_history cfg_zero_cap ''t2''
              (update_price_history cfg_zero_cap ''t1'' st_fresh [(''BTC'', 100)])
              [(''BTC'', 101)])
           ''BTC'')
      = [100, 101]"
  by (simp add: cfg_zero_cap_def st_fresh_def update_price_history_def record_price_def
        py_slice_from_def observations_def Let_def)

end
